theory Spec2Isabelle
  imports Complex_Main
begin

section \<open>TorchGeo \<open>BaseTask\<close>: the abstract base class of all trainers\<close>

text \<open>
  A shallow embedding of \<^verbatim>\<open>torchgeo/trainers/base.py\<close>. The class \<^verbatim>\<open>BaseTask\<close> is a
  template: its constructor saves the constructor arguments as hyperparameters and calls
  three hooks, \<^verbatim>\<open>configure_optimizers\<close> builds an optimizer and a scheduler from two
  hyperparameters, and \<^verbatim>\<open>forward\<close> calls the model. Python objects are modelled by
  records, exceptions by the left summand of a sum, object identity by addresses of a store.
\<close>

subsection \<open>Python values and exceptions\<close>

text \<open>
  The values a hyperparameter can hold. A float is identified by the number it denotes:
  the code stores and passes floats on, and never computes with them.
\<close>

datatype pyval = PyNone | PyBool bool | PyInt int | PyFloat rat | PyStr string

text \<open>
  The number a value stands for in a comparison, if it is one: \<^verbatim>\<open>bool\<close> is a subclass of
  \<^verbatim>\<open>int\<close> in Python, so \<^verbatim>\<open>False\<close> and \<^verbatim>\<open>True\<close> are the numbers 0 and 1.
\<close>

fun as_number :: "pyval \<Rightarrow> rat option" where
  "as_number (PyBool b) = Some (if b then 1 else 0)"
| "as_number (PyInt i) = Some (of_int i)"
| "as_number (PyFloat q) = Some q"
| "as_number PyNone = None"
| "as_number (PyStr _) = None"

fun numeric :: "pyval \<Rightarrow> bool" where
  "numeric (PyBool _) = True"
| "numeric (PyInt _) = True"
| "numeric (PyFloat _) = True"
| "numeric PyNone = False"
| "numeric (PyStr _) = False"

text \<open>
  The exceptions: \<open>KeyError k\<close> for a subscript with a missing key \<open>k\<close>,
  \<open>AttributeError a\<close> for a read of an attribute \<open>a\<close> that was never assigned,
  \<open>TypeError\<close> and \<open>ValueError\<close> with their message, \<open>AbstractClassError ms\<close> for the
  \<^verbatim>\<open>TypeError\<close> that Python raises when a class with abstract methods \<open>ms\<close> is instantiated,
  and \<open>Raised\<close> for any other exception.
\<close>

datatype pyerr =
    KeyError string
  | AttributeError string
  | TypeError string
  | ValueError string
  | AbstractClassError "string list"
  | Raised string

subsection \<open>The task instance\<close>

text \<open>
  A model is any callable: it takes the positional arguments and the keyword arguments,
  may change the state \<open>'s\<close> of the world (buffers, random numbers), and returns a value
  or raises.
\<close>

type_synonym ('a, 's) callable =
  "'a list \<Rightarrow> (string \<times> 'a) list \<Rightarrow> 's \<Rightarrow> (pyerr + 'a) \<times> 's"

text \<open>
  Line 22, \<^verbatim>\<open>model: Any\<close>, is an annotation only: it creates no attribute. So the attribute
  \<^verbatim>\<open>model\<close> of an instance is unassigned until a hook assigns it; it may then hold
  \<^verbatim>\<open>None\<close> or an object.
\<close>

datatype 'm attr = Unassigned | Null | Assigned 'm

text \<open>
  The instance: the attribute \<^verbatim>\<open>model\<close>, the attribute \<^verbatim>\<open>monitor\<close> as a read of
  \<^verbatim>\<open>self.monitor\<close> finds it, the saved hyperparameters \<^verbatim>\<open>self.hparams\<close>, the parameters
  that \<^verbatim>\<open>self.parameters()\<close> enumerates, and every other attribute a subclass sets
  (its loss criterion, its metrics).
\<close>

record ('a, 's) task =
  model :: "('a, 's) callable attr"
  monitor :: string
  hparams :: "string \<rightharpoonup> pyval"
  parameters :: "'a list"
  attrs :: "string \<rightharpoonup> 'a"

text \<open>A method of the instance returns a value and the updated instance, or raises.\<close>

type_synonym ('a, 's) hook = "('a, 's) task \<Rightarrow> pyerr + pyval \<times> ('a, 's) task"

subsection \<open>Classes\<close>

text \<open>
  A class derived from \<^verbatim>\<open>BaseTask\<close> is given by what it overrides: the class attribute
  \<^verbatim>\<open>monitor\<close> and the three hooks. \<open>None\<close> is no override: the member is inherited.
\<close>

record ('a, 's) pyclass =
  cls_monitor :: "string option"
  cls_configure_losses :: "('a, 's) hook option"
  cls_configure_metrics :: "('a, 's) hook option"
  cls_configure_models :: "('a, 's) hook option"

text \<open>\<^verbatim>\<open>BaseTask\<close> itself overrides nothing.\<close>

definition BaseTask :: "('a, 's) pyclass" where
  "BaseTask =
     \<lparr>cls_monitor = None, cls_configure_losses = None,
      cls_configure_metrics = None, cls_configure_models = None\<rparr>"

text \<open>Lines 35-36 and 38-39: the bodies are a docstring; the call returns \<^verbatim>\<open>None\<close>.\<close>

definition configure_losses :: "('a, 's) hook" where
  "configure_losses self = Inr (PyNone, self)"

definition configure_metrics :: "('a, 's) hook" where
  "configure_metrics self = Inr (PyNone, self)"

text \<open>Lines 41-43: abstract; the body, reached through \<^verbatim>\<open>super()\<close> only, is a docstring.\<close>

definition configure_models :: "('a, 's) hook" where
  "configure_models self = Inr (PyNone, self)"

text \<open>Attribute lookup on an instance of the class: the override, or the member of \<^verbatim>\<open>BaseTask\<close>.\<close>

definition lookup_monitor :: "('a, 's) pyclass \<Rightarrow> string" where
  "lookup_monitor cls = (case cls_monitor cls of None \<Rightarrow> ''val_loss'' | Some m \<Rightarrow> m)"

definition lookup_configure_losses :: "('a, 's) pyclass \<Rightarrow> ('a, 's) hook" where
  "lookup_configure_losses cls =
     (case cls_configure_losses cls of None \<Rightarrow> configure_losses | Some f \<Rightarrow> f)"

definition lookup_configure_metrics :: "('a, 's) pyclass \<Rightarrow> ('a, 's) hook" where
  "lookup_configure_metrics cls =
     (case cls_configure_metrics cls of None \<Rightarrow> configure_metrics | Some f \<Rightarrow> f)"

definition lookup_configure_models :: "('a, 's) pyclass \<Rightarrow> ('a, 's) hook" where
  "lookup_configure_models cls =
     (case cls_configure_models cls of None \<Rightarrow> configure_models | Some f \<Rightarrow> f)"

text \<open>
  The abstract methods of the class: \<^verbatim>\<open>configure_models\<close> is the only method that line 41
  marks, and it stays abstract until a class overrides it.
\<close>

definition abstractmethods :: "('a, 's) pyclass \<Rightarrow> string list" where
  "abstractmethods cls =
     (case cls_configure_models cls of None \<Rightarrow> [''configure_models''] | Some _ \<Rightarrow> [])"

subsection \<open>Construction\<close>

text \<open>The methods that lines 30-33 call on \<^verbatim>\<open>self\<close>, by name.\<close>

datatype event = SaveHyperparameters | ConfigureLosses | ConfigureMetrics | ConfigureModels

text \<open>
  Line 29, \<^verbatim>\<open>super().__init__()\<close>: the framework's constructor leaves a module with no
  submodule, no parameter and no hyperparameter; \<^verbatim>\<open>self.monitor\<close> finds the class attribute.
\<close>

definition LightningModule_init :: "('a, 's) pyclass \<Rightarrow> ('a, 's) task" where
  "LightningModule_init cls =
     \<lparr>model = Unassigned, monitor = lookup_monitor cls, hparams = Map.empty,
      parameters = [], attrs = Map.empty\<rparr>"

text \<open>
  Line 30, \<^verbatim>\<open>self.save_hyperparameters()\<close>, is a call of the framework with no argument.
  The framework walks the frames of the constructors that are running, outwards from
  \<^verbatim>\<open>BaseTask.__init__\<close>, and collects the parameters of each subclass constructor that
  reached it through \<^verbatim>\<open>super().__init__()\<close>, with the values they are bound to at that
  moment: the arguments the caller gave and the defaults of those it left out. It finds
  nothing when no such frame is there, as for a subclass with no constructor of its own
  or one that calls \<^verbatim>\<open>BaseTask.__init__(self)\<close> by name. What the framework collects is
  an input of the model, \<open>init_args\<close>; the call adds it to \<^verbatim>\<open>self.hparams\<close>, name by
  name.
\<close>

definition save_hyperparameters ::
  "(string \<times> pyval) list \<Rightarrow> ('a, 's) task \<Rightarrow> ('a, 's) task" where
  "save_hyperparameters init_args self = self\<lparr>hparams := hparams self ++ map_of init_args\<rparr>"

text \<open>
  The method that a call \<^verbatim>\<open>self.name()\<close> inside the constructor runs: the framework's for
  \<^verbatim>\<open>save_hyperparameters\<close>, and for a hook what attribute lookup on the class finds.
\<close>

definition lookup_method ::
  "('a, 's) pyclass \<Rightarrow> (string \<times> pyval) list \<Rightarrow> event \<Rightarrow> ('a, 's) hook" where
  "lookup_method cls init_args name =
     (case name of
        SaveHyperparameters \<Rightarrow> (\<lambda>self. Inr (PyNone, save_hyperparameters init_args self))
      | ConfigureLosses \<Rightarrow> lookup_configure_losses cls
      | ConfigureMetrics \<Rightarrow> lookup_configure_metrics cls
      | ConfigureModels \<Rightarrow> lookup_configure_models cls)"

text \<open>
  A constructor under way: the log of the calls made so far, and the instance as they left
  it, or the exception that ended the construction.
\<close>

type_synonym ('a, 's) run = "event list \<times> (pyerr + ('a, 's) task)"

text \<open>
  One statement \<^verbatim>\<open>self.name()\<close> of the constructor. After an exception nothing is called
  any more. Otherwise the call is logged and the method runs on the instance; its return
  value is dropped, its exception ends the construction.
\<close>

definition call ::
  "('a, 's) pyclass \<Rightarrow> (string \<times> pyval) list \<Rightarrow> event \<Rightarrow> ('a, 's) run \<Rightarrow> ('a, 's) run" where
  "call cls init_args name run =
     (case run of
        (tr, Inl e) \<Rightarrow> (tr, Inl e)
      | (tr, Inr self) \<Rightarrow>
         (case lookup_method cls init_args name self of
            Inl e \<Rightarrow> (tr @ [name], Inl e)
          | Inr (_, self') \<Rightarrow> (tr @ [name], Inr self')))"

text \<open>Lines 27-33, \<^verbatim>\<open>__init__\<close>, for an instance of class \<open>cls\<close>, statement by statement.\<close>

definition BaseTask_init ::
  "('a, 's) pyclass \<Rightarrow> (string \<times> pyval) list \<Rightarrow> ('a, 's) run" where
  "BaseTask_init cls init_args =
     (let run0 = ([], Inr (LightningModule_init cls));
          run1 = call cls init_args SaveHyperparameters run0;
          run2 = call cls init_args ConfigureLosses run1;
          run3 = call cls init_args ConfigureMetrics run2;
          run4 = call cls init_args ConfigureModels run3
      in run4)"

text \<open>
  Instantiation, \<^verbatim>\<open>cls(...)\<close>, where \<open>init_args\<close> is what the framework will collect of
  the arguments. The class has the metaclass of \<^verbatim>\<open>ABC\<close> (line 15), so Python refuses to
  create an instance while an abstract method is left, before \<^verbatim>\<open>__init__\<close> runs.
\<close>

definition instantiate ::
  "('a, 's) pyclass \<Rightarrow> (string \<times> pyval) list \<Rightarrow> ('a, 's) run" where
  "instantiate cls init_args =
     (case abstractmethods cls of
        [] \<Rightarrow> BaseTask_init cls init_args
      | m # ms \<Rightarrow> ([], Inl (AbstractClassError (m # ms))))"

subsection \<open>Optimizer and scheduler\<close>

text \<open>
  The optimizer and the scheduler are objects of a store, named by their address, so that
  two references to one object can be told from two equal objects. An optimizer holds the
  parameters and the learning rate it was built with; a scheduler holds a reference to
  its optimizer, and its patience.
\<close>

type_synonym addr = nat

datatype 'a obj =
    AdamW_obj "'a list" pyval
  | ReduceLROnPlateau_obj addr pyval

type_synonym 'a store = "'a obj list"

definition alloc :: "'a obj \<Rightarrow> 'a store \<Rightarrow> addr \<times> 'a store" where
  "alloc ob h = (length h, h @ [ob])"

definition deref :: "'a store \<Rightarrow> addr \<Rightarrow> 'a obj option" where
  "deref h a = (if a < length h then Some (h ! a) else None)"

text \<open>
  \<^verbatim>\<open>AdamW\<close> and \<^verbatim>\<open>ReduceLROnPlateau\<close> are classes of the optimisation library, not of this
  file. Which arguments their constructors refuse is a parameter of the model: a check
  returns the exception raised, or \<open>None\<close> when the constructor accepts.
\<close>

record 'a torch =
  AdamW_check :: "'a list \<Rightarrow> pyval \<Rightarrow> pyerr option"
  ReduceLROnPlateau_check :: "pyval \<Rightarrow> pyerr option"

definition AdamW ::
  "'a torch \<Rightarrow> 'a list \<Rightarrow> pyval \<Rightarrow> 'a store \<Rightarrow> (pyerr + addr) \<times> 'a store" where
  "AdamW lib params lr h =
     (case AdamW_check lib params lr of
        Some e \<Rightarrow> (Inl e, h)
      | None \<Rightarrow> (case alloc (AdamW_obj params lr) h of (a, h') \<Rightarrow> (Inr a, h')))"

definition ReduceLROnPlateau ::
  "'a torch \<Rightarrow> addr \<Rightarrow> pyval \<Rightarrow> 'a store \<Rightarrow> (pyerr + addr) \<times> 'a store" where
  "ReduceLROnPlateau lib optimizer patience h =
     (case ReduceLROnPlateau_check lib patience of
        Some e \<Rightarrow> (Inl e, h)
      | None \<Rightarrow>
         (case alloc (ReduceLROnPlateau_obj optimizer patience) h of
            (a, h') \<Rightarrow> (Inr a, h')))"

text \<open>The dictionary that \<^verbatim>\<open>configure_optimizers\<close> returns, lines 55-58, key by key.\<close>

record lr_scheduler_config =
  cfg_scheduler :: addr
  cfg_monitor :: string

record optimizer_config =
  cfg_optimizer :: addr
  cfg_lr_scheduler :: lr_scheduler_config

text \<open>
  Lines 45-58. Python evaluates the arguments of a call before it calls: on line 53 the
  subscript \<^verbatim>\<open>self.hparams["lr"]\<close> raises \<^verbatim>\<open>KeyError\<close> before \<^verbatim>\<open>AdamW\<close> is entered, and
  line 54 is reached only when line 53 has returned.
\<close>

definition configure_optimizers ::
  "'a torch \<Rightarrow> ('a, 's) task \<Rightarrow> 'a store \<Rightarrow> (pyerr + optimizer_config) \<times> 'a store" where
  "configure_optimizers lib self h =
     (case hparams self ''lr'' of
        None \<Rightarrow> (Inl (KeyError ''lr''), h)
      | Some lr \<Rightarrow>
         (case AdamW lib (parameters self) lr h of
            (Inl e, h1) \<Rightarrow> (Inl e, h1)
          | (Inr optimizer, h1) \<Rightarrow>
             (case hparams self ''patience'' of
                None \<Rightarrow> (Inl (KeyError ''patience''), h1)
              | Some patience \<Rightarrow>
                 (case ReduceLROnPlateau lib optimizer patience h1 of
                    (Inl e, h2) \<Rightarrow> (Inl e, h2)
                  | (Inr scheduler, h2) \<Rightarrow>
                     (Inr \<lparr>cfg_optimizer = optimizer,
                           cfg_lr_scheduler =
                             \<lparr>cfg_scheduler = scheduler, cfg_monitor = monitor self\<rparr>\<rparr>,
                      h2)))))"

subsection \<open>Forward pass\<close>

text \<open>
  Lines 60-70. Reading \<^verbatim>\<open>self.model\<close> raises \<^verbatim>\<open>AttributeError\<close> when the attribute was
  never assigned; calling \<^verbatim>\<open>None\<close> raises \<^verbatim>\<open>TypeError\<close>; otherwise the model is called
  with the arguments as they came.
\<close>

definition forward ::
  "('a, 's) task \<Rightarrow> 'a list \<Rightarrow> (string \<times> 'a) list \<Rightarrow> 's \<Rightarrow> (pyerr + 'a) \<times> 's" where
  "forward self args kwargs s =
     (case model self of
        Unassigned \<Rightarrow> (Inl (AttributeError ''model''), s)
      | Null \<Rightarrow> (Inl (TypeError ''NoneType object is not callable''), s)
      | Assigned m \<Rightarrow> m args kwargs s)"

subsection \<open>Example classes and instances\<close>

text \<open>
  A library in the manner of the real one. The optimizer compares its learning rate with
  zero: the comparison raises \<^verbatim>\<open>TypeError\<close> for a value that is no number, and a negative
  rate is refused with \<^verbatim>\<open>ValueError\<close>; then it refuses an empty parameter list. The
  scheduler stores its patience as it comes.
\<close>

definition example_torch :: "nat torch" where
  "example_torch =
     \<lparr>AdamW_check = (\<lambda>params lr.
        case as_number lr of
          None \<Rightarrow> Some (TypeError ''<= not supported between float and lr'')
        | Some x \<Rightarrow>
           if x < 0 then Some (ValueError ''Invalid learning rate'')
           else if params = [] then Some (ValueError ''optimizer got an empty parameter list'')
           else None),
      ReduceLROnPlateau_check = (\<lambda>patience. None)\<rparr>"

text \<open>A model that adds up its positional arguments and counts its calls in the world.\<close>

definition example_model :: "(nat, nat) callable" where
  "example_model args kwargs s = (Inr (sum_list args + length kwargs), Suc s)"

text \<open>
  \<^verbatim>\<open>def configure_models(self): self.model = example_model\<close>, a model with two
  parameters.
\<close>

definition example_configure_models :: "(nat, nat) hook" where
  "example_configure_models self =
     Inr (PyNone, self\<lparr>model := Assigned example_model, parameters := [1, 2]\<rparr>)"

text \<open>\<^verbatim>\<open>def configure_models(self): pass\<close>, an override that assigns nothing.\<close>

definition pass_configure_models :: "(nat, nat) hook" where
  "pass_configure_models self = Inr (PyNone, self)"

text \<open>A trainer that overrides \<^verbatim>\<open>configure_models\<close> only.\<close>

definition ExampleTask :: "(nat, nat) pyclass" where
  "ExampleTask =
     \<lparr>cls_monitor = None, cls_configure_losses = None,
      cls_configure_metrics = None, cls_configure_models = Some example_configure_models\<rparr>"

text \<open>A trainer that also sets \<^verbatim>\<open>monitor = "train_loss"\<close> in its class body.\<close>

definition MonitoredTask :: "(nat, nat) pyclass" where
  "MonitoredTask =
     \<lparr>cls_monitor = Some ''train_loss'', cls_configure_losses = None,
      cls_configure_metrics = None, cls_configure_models = Some example_configure_models\<rparr>"

text \<open>A trainer whose \<^verbatim>\<open>configure_models\<close> is the override that assigns nothing.\<close>

definition PassTask :: "(nat, nat) pyclass" where
  "PassTask =
     \<lparr>cls_monitor = None, cls_configure_losses = None,
      cls_configure_metrics = None, cls_configure_models = Some pass_configure_models\<rparr>"

text \<open>A subclass that sets \<^verbatim>\<open>monitor\<close> and leaves \<^verbatim>\<open>configure_models\<close> abstract.\<close>

definition UnfinishedTask :: "(nat, nat) pyclass" where
  "UnfinishedTask =
     \<lparr>cls_monitor = Some ''train_loss'', cls_configure_losses = None,
      cls_configure_metrics = None, cls_configure_models = None\<rparr>"





text \<open>
  The constructor arguments \<^verbatim>\<open>lr=1e-3, patience=5\<close> as the framework collects them, and
  four defective ones.
\<close>

definition example_kwargs :: "(string \<times> pyval) list" where
  "example_kwargs = [(''lr'', PyFloat (1 / 1000)), (''patience'', PyInt 5)]"

definition no_lr_kwargs :: "(string \<times> pyval) list" where
  "no_lr_kwargs = [(''patience'', PyInt 5)]"

definition no_patience_kwargs :: "(string \<times> pyval) list" where
  "no_patience_kwargs = [(''lr'', PyFloat (1 / 1000))]"

definition str_patience_kwargs :: "(string \<times> pyval) list" where
  "str_patience_kwargs = [(''lr'', PyFloat (1 / 1000)), (''patience'', PyStr ''five'')]"

definition str_lr_kwargs :: "(string \<times> pyval) list" where
  "str_lr_kwargs = [(''lr'', PyStr ''fast''), (''patience'', PyInt 5)]"

text \<open>The instance that a construction leaves when the hooks are those of \<open>ExampleTask\<close>.\<close>

definition example_instance ::
  "(nat, nat) pyclass \<Rightarrow> (string \<times> pyval) list \<Rightarrow> (nat, nat) task" where
  "example_instance cls init_args =
     \<lparr>model = Assigned example_model, monitor = lookup_monitor cls,
      hparams = map_of init_args, parameters = [1, 2], attrs = Map.empty\<rparr>"





text \<open>The log of a construction that ran to its end.\<close>

definition full_trace :: "event list" where
  "full_trace = [SaveHyperparameters, ConfigureLosses, ConfigureMetrics, ConfigureModels]"

section \<open>Properties\<close>

subsection \<open>Shared facts\<close>

lemma instantiate_example:
  "cls_configure_losses cls = None \<Longrightarrow> cls_configure_metrics cls = None \<Longrightarrow>
   cls_configure_models cls = Some example_configure_models \<Longrightarrow>
   instantiate cls init_args = (full_trace, Inr (example_instance cls init_args))"
  by (simp add: instantiate_def abstractmethods_def BaseTask_init_def call_def
      lookup_method_def
      lookup_configure_losses_def lookup_configure_metrics_def lookup_configure_models_def
      configure_losses_def configure_metrics_def example_configure_models_def
      save_hyperparameters_def LightningModule_init_def example_instance_def full_trace_def)

lemma instantiate_ExampleTask:
  "instantiate ExampleTask kwargs = (full_trace, Inr (example_instance ExampleTask kwargs))"
  by (rule instantiate_example) (simp_all add: ExampleTask_def)

lemma instantiate_MonitoredTask:
  "instantiate MonitoredTask kwargs = (full_trace, Inr (example_instance MonitoredTask kwargs))"
  by (rule instantiate_example) (simp_all add: MonitoredTask_def)

lemma example_instance_simps:
  "model (example_instance cls init_args) = Assigned example_model"
  "monitor (example_instance cls init_args) = lookup_monitor cls"
  "hparams (example_instance cls init_args) = map_of init_args"
  "parameters (example_instance cls init_args) = [1, 2]"
  by (simp_all add: example_instance_def)

lemma lookup_monitor_examples:
  "lookup_monitor ExampleTask = ''val_loss''"
  "lookup_monitor MonitoredTask = ''train_loss''"
  by (simp_all add: lookup_monitor_def ExampleTask_def MonitoredTask_def)

lemma example_torch_simps:
  "AdamW_check example_torch (x # xs) (PyFloat (1 / 1000)) = None"
  "AdamW_check example_torch ps (PyStr w)
     = Some (TypeError ''<= not supported between float and lr'')"
  "ReduceLROnPlateau_check example_torch p = None"
  by (simp_all add: example_torch_def)

text \<open>What a call of \<^verbatim>\<open>configure_optimizers\<close> that returns has done.\<close>

lemma configure_optimizers_returns:
  assumes "configure_optimizers lib self h = (Inr cfg, h')"
  obtains lr patience where
    "hparams self ''lr'' = Some lr" and "hparams self ''patience'' = Some patience"
    and "AdamW_check lib (parameters self) lr = None"
    and "ReduceLROnPlateau_check lib patience = None"
    and "cfg = \<lparr>cfg_optimizer = length h,
                cfg_lr_scheduler =
                  \<lparr>cfg_scheduler = Suc (length h), cfg_monitor = monitor self\<rparr>\<rparr>"
    and "h' = h @ [AdamW_obj (parameters self) lr, ReduceLROnPlateau_obj (length h) patience]"
  using assms
  by (auto simp: configure_optimizers_def AdamW_def ReduceLROnPlateau_def alloc_def
      split: option.splits)

text \<open>What a construction that completes has run, in terms of \<^verbatim>\<open>__init__\<close> alone.\<close>

lemma BaseTask_init_completes:
  assumes "BaseTask_init cls init_args = (tr, Inr self)"
  shows "tr = [SaveHyperparameters, ConfigureLosses, ConfigureMetrics, ConfigureModels]"
    and "\<exists>v1 self1 v2 self2 v3.
       lookup_configure_losses cls (save_hyperparameters init_args (LightningModule_init cls))
         = Inr (v1, self1) \<and>
       lookup_configure_metrics cls self1 = Inr (v2, self2) \<and>
       lookup_configure_models cls self2 = Inr (v3, self)"
  using assms
  by (auto simp: BaseTask_init_def call_def lookup_method_def Let_def
      split: sum.splits prod.splits)

text \<open>And the converse: what it returns when both keys are there and both constructors accept.\<close>

lemma configure_optimizers_accepts:
  assumes "hparams self ''lr'' = Some lr" and "hparams self ''patience'' = Some patience"
    and "AdamW_check lib (parameters self) lr = None"
    and "ReduceLROnPlateau_check lib patience = None"
  shows "configure_optimizers lib self h =
    (Inr \<lparr>cfg_optimizer = length h,
          cfg_lr_scheduler = \<lparr>cfg_scheduler = Suc (length h), cfg_monitor = monitor self\<rparr>\<rparr>,
     h @ [AdamW_obj (parameters self) lr, ReduceLROnPlateau_obj (length h) patience])"
  using assms
  by (simp add: configure_optimizers_def AdamW_def ReduceLROnPlateau_def alloc_def)

subsection \<open>Construction\<close>



text \<open>
  Claim C3, as the claim states it, fails: \<open>PassTask\<close> implements \<^verbatim>\<open>configure_models\<close>,
  its construction completes, and \<^verbatim>\<open>model\<close> is not assigned.
\<close>

theorem model_non_null_counterexample:
  "abstractmethods PassTask = [] \<and>
   fst (instantiate PassTask example_kwargs) = full_trace \<and>
   map_sum id model (snd (instantiate PassTask example_kwargs)) = Inr Unassigned"
  by (simp add: instantiate_def abstractmethods_def BaseTask_init_def call_def
      lookup_method_def PassTask_def
      lookup_configure_losses_def lookup_configure_metrics_def lookup_configure_models_def
      configure_losses_def configure_metrics_def pass_configure_models_def
      save_hyperparameters_def LightningModule_init_def full_trace_def)

text \<open>
  Claim C3, amended. \<^verbatim>\<open>configure_models\<close> is the last call of the constructor, so the
  model of a constructed instance is what that hook left: for a subclass whose
  \<^verbatim>\<open>configure_models\<close>, whenever it returns, has assigned an object to \<^verbatim>\<open>model\<close>, the
  model of every constructed instance is that of an object, neither unassigned nor
  \<^verbatim>\<open>None\<close>.
\<close>

theorem model_assigned_after_construction:
  assumes "instantiate cls init_args = (tr, Inr self)"
    and "\<And>self0 v self1. lookup_configure_models cls self0 = Inr (v, self1)
           \<Longrightarrow> \<exists>m. model self1 = Assigned m"
  shows "\<exists>m. model self = Assigned m"
proof -
  from assms(1) have "BaseTask_init cls init_args = (tr, Inr self)"
    by (simp add: instantiate_def split: list.splits)
  then obtain self2 v3 where "lookup_configure_models cls self2 = Inr (v3, self)"
    using BaseTask_init_completes(2) by blast
  then show ?thesis by (rule assms(2))
qed

theorem model_assigned_after_construction_witness:
  "instantiate ExampleTask example_kwargs =
     (full_trace, Inr (example_instance ExampleTask example_kwargs)) \<and>
   (\<exists>m. model (example_instance ExampleTask example_kwargs) = Assigned m)"
proof -
  have hook: "\<exists>m. model self1 = Assigned m"
    if "lookup_configure_models ExampleTask self0 = Inr (v, self1)" for self0 v self1
    using that
    by (auto simp: lookup_configure_models_def ExampleTask_def example_configure_models_def)
  show ?thesis
    using model_assigned_after_construction
      [OF instantiate_ExampleTask [of example_kwargs] hook]
      instantiate_ExampleTask [of example_kwargs]
    by simp
qed

text \<open>
  Claim C5. Instantiating a class that does not override \<^verbatim>\<open>configure_models\<close>,
  \<^verbatim>\<open>BaseTask\<close> itself among them, raises the abstract-method error, and no call of the
  constructor is made.
\<close>

theorem abstract_class_not_instantiable:
  assumes "cls_configure_models cls = None"
  shows "instantiate cls init_args = ([], Inl (AbstractClassError [''configure_models'']))"
  using assms by (simp add: instantiate_def abstractmethods_def)

theorem abstract_class_not_instantiable_witness:
  "cls_configure_models (BaseTask :: (nat, nat) pyclass) = None \<and>
   instantiate (BaseTask :: (nat, nat) pyclass) example_kwargs
     = ([], Inl (AbstractClassError [''configure_models''])) \<and>
   cls_configure_models UnfinishedTask = None \<and>
   instantiate UnfinishedTask example_kwargs
     = ([], Inl (AbstractClassError [''configure_models'']))"
proof -
  have b: "cls_configure_models (BaseTask :: (nat, nat) pyclass) = None"
    by (simp add: BaseTask_def)
  have u: "cls_configure_models UnfinishedTask = None"
    by (simp add: UnfinishedTask_def)
  show ?thesis
    using b u abstract_class_not_instantiable [OF b, of example_kwargs]
      abstract_class_not_instantiable [OF u, of example_kwargs]
    by simp
qed

text \<open>
  Claim C9. The hooks \<^verbatim>\<open>configure_losses\<close> and \<^verbatim>\<open>configure_metrics\<close> of \<^verbatim>\<open>BaseTask\<close>
  return \<^verbatim>\<open>None\<close> and leave the instance as it was, field by field; a class that does not
  override them, \<^verbatim>\<open>BaseTask\<close> itself or \<open>ExampleTask\<close>, calls these.
\<close>

theorem default_hooks_are_noops:
  "configure_losses self = Inr (PyNone, self) \<and>
   configure_metrics self = Inr (PyNone, self) \<and>
   lookup_configure_losses BaseTask self = Inr (PyNone, self) \<and>
   lookup_configure_metrics BaseTask self = Inr (PyNone, self) \<and>
   lookup_configure_losses ExampleTask self' = Inr (PyNone, self') \<and>
   lookup_configure_metrics ExampleTask self' = Inr (PyNone, self')"
  by (simp add: configure_losses_def configure_metrics_def lookup_configure_losses_def
      lookup_configure_metrics_def BaseTask_def ExampleTask_def)

subsection \<open>Optimizer configuration\<close>

text \<open>
  Claim C1, as the claim states it, fails: an instance of \<open>MonitoredTask\<close> constructed with
  \<^verbatim>\<open>lr=1e-3, patience=5\<close> gets a configuration that monitors \<^verbatim>\<open>train_loss\<close>.
\<close>

theorem configure_optimizers_val_loss_counterexample:
  "instantiate MonitoredTask example_kwargs =
     (full_trace, Inr (example_instance MonitoredTask example_kwargs)) \<and>
   hparams (example_instance MonitoredTask example_kwargs) ''lr'' = Some (PyFloat (1 / 1000)) \<and>
   hparams (example_instance MonitoredTask example_kwargs) ''patience'' = Some (PyInt 5) \<and>
   configure_optimizers example_torch (example_instance MonitoredTask example_kwargs) [] =
     (Inr \<lparr>cfg_optimizer = 0,
           cfg_lr_scheduler = \<lparr>cfg_scheduler = 1, cfg_monitor = ''train_loss''\<rparr>\<rparr>,
      [AdamW_obj [1, 2] (PyFloat (1 / 1000)), ReduceLROnPlateau_obj 0 (PyInt 5)]) \<and>
   ''train_loss'' \<noteq> ''val_loss''"
  by (simp add: instantiate_MonitoredTask example_instance_simps lookup_monitor_examples
      example_kwargs_def configure_optimizers_def AdamW_def ReduceLROnPlateau_def alloc_def
      example_torch_simps)

text \<open>
  Claim C1, amended. For a task whose hyperparameters hold \<^verbatim>\<open>lr=1e-3\<close> and
  \<^verbatim>\<open>patience=5\<close>, whose \<^verbatim>\<open>monitor\<close> is the one of \<^verbatim>\<open>BaseTask\<close>, and whose optimizer and
  scheduler constructors accept these arguments, \<^verbatim>\<open>configure_optimizers\<close> creates one
  \<^verbatim>\<open>AdamW\<close> optimizer over all the parameters the task enumerates, with learning rate
  \<^verbatim>\<open>1e-3\<close>, then one \<^verbatim>\<open>ReduceLROnPlateau\<close> scheduler on that optimizer with patience 5,
  and returns the two with the monitor name \<^verbatim>\<open>val_loss\<close>.
\<close>

theorem configure_optimizers_lr_patience:
  assumes "hparams self ''lr'' = Some (PyFloat (1 / 1000))"
    and "hparams self ''patience'' = Some (PyInt 5)"
    and "monitor self = ''val_loss''"
    and "AdamW_check lib (parameters self) (PyFloat (1 / 1000)) = None"
    and "ReduceLROnPlateau_check lib (PyInt 5) = None"
  shows "configure_optimizers lib self h =
    (Inr \<lparr>cfg_optimizer = length h,
          cfg_lr_scheduler = \<lparr>cfg_scheduler = Suc (length h), cfg_monitor = ''val_loss''\<rparr>\<rparr>,
     h @ [AdamW_obj (parameters self) (PyFloat (1 / 1000)),
          ReduceLROnPlateau_obj (length h) (PyInt 5)])"
  using configure_optimizers_accepts [OF assms(1,2,4,5), of h] assms(3) by simp

theorem configure_optimizers_lr_patience_witness:
  "hparams (example_instance ExampleTask example_kwargs) ''lr'' = Some (PyFloat (1 / 1000)) \<and>
   hparams (example_instance ExampleTask example_kwargs) ''patience'' = Some (PyInt 5) \<and>
   monitor (example_instance ExampleTask example_kwargs) = ''val_loss'' \<and>
   AdamW_check example_torch (parameters (example_instance ExampleTask example_kwargs))
     (PyFloat (1 / 1000)) = None \<and>
   ReduceLROnPlateau_check example_torch (PyInt 5) = None \<and>
   configure_optimizers example_torch (example_instance ExampleTask example_kwargs) [] =
     (Inr \<lparr>cfg_optimizer = 0,
           cfg_lr_scheduler = \<lparr>cfg_scheduler = 1, cfg_monitor = ''val_loss''\<rparr>\<rparr>,
      [AdamW_obj [1, 2] (PyFloat (1 / 1000)), ReduceLROnPlateau_obj 0 (PyInt 5)])"
proof -
  have 1: "hparams (example_instance ExampleTask example_kwargs) ''lr''
      = Some (PyFloat (1 / 1000))"
    by (simp add: example_instance_simps example_kwargs_def)
  have 2: "hparams (example_instance ExampleTask example_kwargs) ''patience'' = Some (PyInt 5)"
    by (simp add: example_instance_simps example_kwargs_def)
  have 3: "monitor (example_instance ExampleTask example_kwargs) = ''val_loss''"
    by (simp add: example_instance_simps lookup_monitor_examples)
  have 4: "AdamW_check example_torch (parameters (example_instance ExampleTask example_kwargs))
      (PyFloat (1 / 1000)) = None"
    by (simp add: example_instance_simps example_torch_simps)
  have 5: "ReduceLROnPlateau_check example_torch (PyInt 5) = None"
    by (simp add: example_torch_simps)
  show ?thesis
    using 1 2 3 4 5 configure_optimizers_lr_patience [OF 1 2 3 4 5, of "[]"]
    by (simp add: example_instance_simps)
qed

text \<open>
  Claim C6, as the claim states it, fails: with \<^verbatim>\<open>patience="five"\<close>, a value that is no
  number, the subscript on line 54 finds the key, the scheduler constructor stores the
  value, and \<^verbatim>\<open>configure_optimizers\<close> returns a configuration.
\<close>

theorem configure_optimizers_type_error_counterexample:
  "instantiate ExampleTask str_patience_kwargs =
     (full_trace, Inr (example_instance ExampleTask str_patience_kwargs)) \<and>
   hparams (example_instance ExampleTask str_patience_kwargs) ''patience''
     = Some (PyStr ''five'') \<and>
   \<not> numeric (PyStr ''five'') \<and>
   configure_optimizers example_torch (example_instance ExampleTask str_patience_kwargs) [] =
     (Inr \<lparr>cfg_optimizer = 0,
           cfg_lr_scheduler = \<lparr>cfg_scheduler = 1, cfg_monitor = ''val_loss''\<rparr>\<rparr>,
      [AdamW_obj [1, 2] (PyFloat (1 / 1000)), ReduceLROnPlateau_obj 0 (PyStr ''five'')])"
  by (simp add: instantiate_ExampleTask example_instance_simps lookup_monitor_examples
      str_patience_kwargs_def configure_optimizers_def AdamW_def ReduceLROnPlateau_def
      alloc_def example_torch_simps)

text \<open>
  Claim C6, amended. \<^verbatim>\<open>configure_optimizers\<close> fails, and returns no configuration,
  \<^item> for a task whose hyperparameters lack the key \<^verbatim>\<open>lr\<close> or the key \<^verbatim>\<open>patience\<close>: with
    the \<^verbatim>\<open>KeyError\<close> of \<^verbatim>\<open>lr\<close> when that key is missing; otherwise, \<^verbatim>\<open>patience\<close>
    missing, with the exception of the optimizer constructor when it refuses its
    arguments, and else with the \<^verbatim>\<open>KeyError\<close> of \<^verbatim>\<open>patience\<close>;
  \<^item> for a task that holds for \<^verbatim>\<open>lr\<close> a value the optimizer constructor refuses, as it
    refuses one that is no number: with the exception of that constructor, its type error.

  The code has no check of its own: with both keys present the two values are passed to
  the constructors as they are, and the constructors alone decide. So a \<^verbatim>\<open>patience\<close> that
  is no number fails only if the scheduler constructor refuses it, and is stored in the
  scheduler of the configuration returned if not.
\<close>

theorem configure_optimizers_failures:
  "(hparams self ''lr'' = None \<or> hparams self ''patience'' = None \<longrightarrow>
      fst (configure_optimizers lib self h) =
        Inl (case hparams self ''lr'' of
               None \<Rightarrow> KeyError ''lr''
             | Some v \<Rightarrow>
                (case AdamW_check lib (parameters self) v of
                   Some e \<Rightarrow> e
                 | None \<Rightarrow> KeyError ''patience''))) \<and>
   (hparams self ''lr'' = Some lr \<and> AdamW_check lib (parameters self) lr = Some err \<longrightarrow>
      configure_optimizers lib self h = (Inl err, h)) \<and>
   (hparams self ''lr'' = Some lr \<and> hparams self ''patience'' = Some patience \<longrightarrow>
      configure_optimizers lib self h =
        (case AdamW_check lib (parameters self) lr of
           Some e \<Rightarrow> (Inl e, h)
         | None \<Rightarrow>
            (case ReduceLROnPlateau_check lib patience of
               Some e \<Rightarrow> (Inl e, h @ [AdamW_obj (parameters self) lr])
             | None \<Rightarrow>
                (Inr \<lparr>cfg_optimizer = length h,
                      cfg_lr_scheduler =
                        \<lparr>cfg_scheduler = Suc (length h), cfg_monitor = monitor self\<rparr>\<rparr>,
                 h @ [AdamW_obj (parameters self) lr,
                      ReduceLROnPlateau_obj (length h) patience]))))"
  by (auto simp: configure_optimizers_def AdamW_def ReduceLROnPlateau_def alloc_def
      split: option.splits)

text \<open>
  The witness: a task without \<^verbatim>\<open>lr\<close>, one without \<^verbatim>\<open>patience\<close>, one with
  \<^verbatim>\<open>lr="fast"\<close>, which the optimizer constructor refuses with its type error, and one with
  \<^verbatim>\<open>patience="five"\<close>, which the scheduler constructor stores.
\<close>

theorem configure_optimizers_failures_witness:
  "hparams (example_instance ExampleTask no_lr_kwargs) ''lr'' = None \<and>
   fst (configure_optimizers example_torch (example_instance ExampleTask no_lr_kwargs) [])
     = Inl (KeyError ''lr'') \<and>
   hparams (example_instance ExampleTask no_patience_kwargs) ''patience'' = None \<and>
   fst (configure_optimizers example_torch (example_instance ExampleTask no_patience_kwargs) [])
     = Inl (KeyError ''patience'') \<and>
   hparams (example_instance ExampleTask str_lr_kwargs) ''lr'' = Some (PyStr ''fast'') \<and>
   AdamW_check example_torch (parameters (example_instance ExampleTask str_lr_kwargs))
     (PyStr ''fast'') = Some (TypeError ''<= not supported between float and lr'') \<and>
   configure_optimizers example_torch (example_instance ExampleTask str_lr_kwargs) []
     = (Inl (TypeError ''<= not supported between float and lr''), []) \<and>
   hparams (example_instance ExampleTask str_patience_kwargs) ''lr''
     = Some (PyFloat (1 / 1000)) \<and>
   hparams (example_instance ExampleTask str_patience_kwargs) ''patience''
     = Some (PyStr ''five'') \<and>
   configure_optimizers example_torch (example_instance ExampleTask str_patience_kwargs) [] =
     (Inr \<lparr>cfg_optimizer = 0,
           cfg_lr_scheduler = \<lparr>cfg_scheduler = 1, cfg_monitor = ''val_loss''\<rparr>\<rparr>,
      [AdamW_obj [1, 2] (PyFloat (1 / 1000)), ReduceLROnPlateau_obj 0 (PyStr ''five'')])"
proof -
  have 1: "hparams (example_instance ExampleTask no_lr_kwargs) ''lr'' = None"
    by (simp add: example_instance_simps no_lr_kwargs_def)
  have 2: "hparams (example_instance ExampleTask no_patience_kwargs) ''patience'' = None"
    by (simp add: example_instance_simps no_patience_kwargs_def)
  have 3: "hparams (example_instance ExampleTask no_patience_kwargs) ''lr''
      = Some (PyFloat (1 / 1000))"
    by (simp add: example_instance_simps no_patience_kwargs_def)
  have 4: "hparams (example_instance ExampleTask str_lr_kwargs) ''lr'' = Some (PyStr ''fast'')"
    by (simp add: example_instance_simps str_lr_kwargs_def)
  have 5: "AdamW_check example_torch (parameters (example_instance ExampleTask str_lr_kwargs))
      (PyStr ''fast'') = Some (TypeError ''<= not supported between float and lr'')"
    by (simp add: example_torch_simps)
  have 6: "hparams (example_instance ExampleTask str_patience_kwargs) ''lr''
      = Some (PyFloat (1 / 1000))"
    by (simp add: example_instance_simps str_patience_kwargs_def)
  have 7: "hparams (example_instance ExampleTask str_patience_kwargs) ''patience''
      = Some (PyStr ''five'')"
    by (simp add: example_instance_simps str_patience_kwargs_def)
  note a = configure_optimizers_failures
    [where self = "example_instance ExampleTask no_lr_kwargs" and lib = example_torch
       and h = "[]", THEN conjunct1, rule_format, OF disjI1 [OF 1]]
  note b = configure_optimizers_failures
    [where self = "example_instance ExampleTask no_patience_kwargs" and lib = example_torch
       and h = "[]", THEN conjunct1, rule_format, OF disjI2 [OF 2]]
  note c = configure_optimizers_failures
    [where self = "example_instance ExampleTask str_lr_kwargs" and lib = example_torch
       and h = "[]", THEN conjunct2, THEN conjunct1, rule_format, OF conjI [OF 4 5]]
  note d = configure_optimizers_failures
    [where self = "example_instance ExampleTask str_patience_kwargs" and lib = example_torch
       and h = "[]", THEN conjunct2, THEN conjunct2, rule_format, OF conjI [OF 6 7]]
  show ?thesis
    using 1 2 3 4 5 6 7 a b c d
    by (simp add: example_instance_simps example_torch_simps lookup_monitor_examples)
qed

text \<open>
  Claim C7. For a subclass that overrides \<^verbatim>\<open>monitor\<close> with the string \<open>m\<close>, and an
  instance on which \<^verbatim>\<open>self.monitor\<close> finds that class attribute, the configuration that
  \<^verbatim>\<open>configure_optimizers\<close> returns has \<open>m\<close> under the key \<^verbatim>\<open>monitor\<close> of its
  \<^verbatim>\<open>lr_scheduler\<close> entry.
\<close>

theorem monitor_override_propagates:
  assumes "cls_monitor cls = Some m"
    and "monitor self = lookup_monitor cls"
    and "configure_optimizers lib self h = (Inr cfg, h')"
  shows "cfg_monitor (cfg_lr_scheduler cfg) = m"
proof -
  from assms(3) have "cfg_monitor (cfg_lr_scheduler cfg) = monitor self"
    by (rule configure_optimizers_returns) simp
  with assms(1,2) show ?thesis by (simp add: lookup_monitor_def)
qed

theorem monitor_override_propagates_witness:
  "cls_monitor MonitoredTask = Some ''train_loss'' \<and>
   instantiate MonitoredTask example_kwargs =
     (full_trace, Inr (example_instance MonitoredTask example_kwargs)) \<and>
   monitor (example_instance MonitoredTask example_kwargs) = lookup_monitor MonitoredTask \<and>
   configure_optimizers example_torch (example_instance MonitoredTask example_kwargs) [] =
     (Inr \<lparr>cfg_optimizer = 0,
           cfg_lr_scheduler = \<lparr>cfg_scheduler = 1, cfg_monitor = ''train_loss''\<rparr>\<rparr>,
      [AdamW_obj [1, 2] (PyFloat (1 / 1000)), ReduceLROnPlateau_obj 0 (PyInt 5)]) \<and>
   cfg_monitor (cfg_lr_scheduler
      \<lparr>cfg_optimizer = 0,
       cfg_lr_scheduler = \<lparr>cfg_scheduler = 1, cfg_monitor = ''train_loss''\<rparr>\<rparr>) = ''train_loss''"
proof -
  have 1: "cls_monitor MonitoredTask = Some ''train_loss''"
    by (simp add: MonitoredTask_def)
  have 2: "monitor (example_instance MonitoredTask example_kwargs) = lookup_monitor MonitoredTask"
    by (simp add: example_instance_simps)
  have 3: "configure_optimizers example_torch (example_instance MonitoredTask example_kwargs) [] =
     (Inr \<lparr>cfg_optimizer = 0,
           cfg_lr_scheduler = \<lparr>cfg_scheduler = 1, cfg_monitor = ''train_loss''\<rparr>\<rparr>,
      [AdamW_obj [1, 2] (PyFloat (1 / 1000)), ReduceLROnPlateau_obj 0 (PyInt 5)])"
    by (simp add: example_instance_simps lookup_monitor_examples example_kwargs_def
        configure_optimizers_def AdamW_def ReduceLROnPlateau_def alloc_def example_torch_simps)
  show ?thesis
    using 1 2 3 monitor_override_propagates [OF 1 2 3] instantiate_MonitoredTask [of example_kwargs]
    by simp
qed

text \<open>
  Claim C10. When \<^verbatim>\<open>configure_optimizers\<close> returns, the scheduler of the \<^verbatim>\<open>lr_scheduler\<close>
  entry is a scheduler object whose optimizer is the address under the key
  \<^verbatim>\<open>optimizer\<close>: one optimizer object, created by this call over the parameters of the
  task, referred to from both places.
\<close>

theorem scheduler_wraps_returned_optimizer:
  assumes "configure_optimizers lib self h = (Inr cfg, h')"
  shows "\<exists>lr patience.
    deref h' (cfg_scheduler (cfg_lr_scheduler cfg))
      = Some (ReduceLROnPlateau_obj (cfg_optimizer cfg) patience) \<and>
    deref h' (cfg_optimizer cfg) = Some (AdamW_obj (parameters self) lr) \<and>
    deref h (cfg_optimizer cfg) = None"
  using assms
  by (rule configure_optimizers_returns) (simp add: deref_def nth_append)

theorem scheduler_wraps_returned_optimizer_witness:
  "configure_optimizers example_torch (example_instance ExampleTask example_kwargs) [] =
     (Inr \<lparr>cfg_optimizer = 0,
           cfg_lr_scheduler = \<lparr>cfg_scheduler = 1, cfg_monitor = ''val_loss''\<rparr>\<rparr>,
      [AdamW_obj [1, 2] (PyFloat (1 / 1000)), ReduceLROnPlateau_obj 0 (PyInt 5)]) \<and>
   (\<exists>lr patience.
      deref [AdamW_obj [1, 2 :: nat] (PyFloat (1 / 1000)), ReduceLROnPlateau_obj 0 (PyInt 5)] 1
        = Some (ReduceLROnPlateau_obj 0 patience) \<and>
      deref [AdamW_obj [1, 2 :: nat] (PyFloat (1 / 1000)), ReduceLROnPlateau_obj 0 (PyInt 5)] 0
        = Some (AdamW_obj [1, 2] lr))"
proof -
  have run: "configure_optimizers example_torch (example_instance ExampleTask example_kwargs) [] =
     (Inr \<lparr>cfg_optimizer = 0,
           cfg_lr_scheduler = \<lparr>cfg_scheduler = 1, cfg_monitor = ''val_loss''\<rparr>\<rparr>,
      [AdamW_obj [1, 2] (PyFloat (1 / 1000)), ReduceLROnPlateau_obj 0 (PyInt 5)])"
    by (simp add: example_instance_simps lookup_monitor_examples example_kwargs_def
        configure_optimizers_def AdamW_def ReduceLROnPlateau_def alloc_def example_torch_simps)
  show ?thesis
    using run scheduler_wraps_returned_optimizer [OF run]
    by (simp add: example_instance_simps)
qed

subsection \<open>Forward pass\<close>

text \<open>
  Claim C4. On a task whose model is assigned, \<^verbatim>\<open>forward\<close> with any positional and keyword
  arguments is the call of the model with these arguments: the same result, the same
  effect, nothing before and nothing after.
\<close>

theorem forward_delegates_to_model:
  assumes "model self = Assigned m"
  shows "forward self args kwargs s = m args kwargs s"
  using assms by (simp add: forward_def)

theorem forward_delegates_to_model_witness:
  "model (example_instance ExampleTask example_kwargs) = Assigned example_model \<and>
   forward (example_instance ExampleTask example_kwargs) [3, 4] [(''scale'', 2)] 0
     = example_model [3, 4] [(''scale'', 2)] 0 \<and>
   example_model [3, 4] [(''scale'', 2)] 0 = (Inr 8, 1)"
proof -
  have 1: "model (example_instance ExampleTask example_kwargs) = Assigned example_model"
    by (simp add: example_instance_simps)
  show ?thesis
    using 1 forward_delegates_to_model [OF 1, of "[3, 4]" "[(''scale'', 2)]" 0]
    by (simp add: example_model_def)
qed

text \<open>
  Claim C8. On a task whose \<^verbatim>\<open>model\<close> was never assigned, \<^verbatim>\<open>forward\<close> raises the
  \<^verbatim>\<open>AttributeError\<close> of \<^verbatim>\<open>model\<close>, whatever the arguments, and has no other effect.
\<close>

theorem forward_without_model_fails:
  assumes "model self = Unassigned"
  shows "forward self args kwargs s = (Inl (AttributeError ''model''), s)"
  using assms by (simp add: forward_def)

theorem forward_without_model_fails_witness:
  "model (LightningModule_init ExampleTask) = Unassigned \<and>
   forward (LightningModule_init ExampleTask) [3, 4] [] 0 = (Inl (AttributeError ''model''), 0)"
proof -
  have 1: "model (LightningModule_init ExampleTask) = Unassigned"
    by (simp add: LightningModule_init_def)
  show ?thesis
    using 1 forward_without_model_fails [OF 1, of "[3, 4]" "[]" 0] by simp
qed

end
